theory Spec2Isabelle
  imports Main "HOL-Library.Sublist"
begin

section \<open>JavaScript values\<close>

text \<open>
  The values that cross the RPC boundary. A JSON text is represented by the value it
  denotes; besides the JSON values there are \<open>undefined\<close> and \<open>Date\<close> objects, which
  a method can return and which \<open>JSON.stringify\<close> treats specially. Numbers are
  integers here (the only number of the repository is the counter); a \<open>Date\<close> is
  its epoch time.
\<close>

datatype jsval =
    JUndefined
  | JNull
  | JBool bool
  | JNumber int
  | JString string
  | JDate nat
  | JArray "jsval list"
  | JObject "(string \<times> jsval) list"

text \<open>Truthiness, as \<open>if (x)\<close>, \<open>x || y\<close> and \<open>x ? a : b\<close> test it.\<close>

fun truthy :: "jsval \<Rightarrow> bool" where
  "truthy JUndefined = False"
| "truthy JNull = False"
| "truthy (JBool b) = b"
| "truthy (JNumber n) = (n \<noteq> 0)"
| "truthy (JString s) = (s \<noteq> [])"
| "truthy (JDate d) = True"
| "truthy (JArray xs) = True"
| "truthy (JObject fs) = True"

text \<open>Property access \<open>v.key\<close> on a value that is neither \<open>null\<close> nor \<open>undefined\<close>:
  an object yields its field, every other value has no such property.\<close>

fun getField :: "jsval \<Rightarrow> string \<Rightarrow> jsval" where
  "getField (JObject fs) k = (case map_of fs k of Some v \<Rightarrow> v | None \<Rightarrow> JUndefined)"
| "getField v k = JUndefined"

section \<open>The registry of callable methods (lib/callable)\<close>

text \<open>
  The decorator keeps its list with \<open>Reflect.getMetadata\<close> and
  \<open>Reflect.defineMetadata\<close> under the module's private key. \<open>defineMetadata\<close>
  writes the slot of the target object itself; \<open>getMetadata\<close> reads the target's own
  slot and otherwise the slot of the nearest object of its prototype chain that has
  one. The slot holds a reference to an array, and \<open>push\<close> changes that array in
  place, so the store is a heap of arrays plus one slot per object.
\<close>

type_synonym obj = nat

record target =
  ident :: obj
  protoChain :: "obj list"

record MethodMetadata =
  name :: string
  descriptor :: nat

record metadata_store =
  slot :: "obj \<Rightarrow> nat option"
  arrays :: "nat \<Rightarrow> MethodMetadata list"
  nextRef :: nat

definition no_metadata :: metadata_store where
  "no_metadata = \<lparr>slot = (\<lambda>_. None), arrays = (\<lambda>_. []), nextRef = 0\<rparr>"

fun lookup_chain :: "(obj \<Rightarrow> nat option) \<Rightarrow> obj list \<Rightarrow> nat option" where
  "lookup_chain sl [] = None"
| "lookup_chain sl (x # xs) = (case sl x of Some r \<Rightarrow> Some r | None \<Rightarrow> lookup_chain sl xs)"

definition getMetadata :: "metadata_store \<Rightarrow> target \<Rightarrow> nat option" where
  "getMetadata ms t = lookup_chain (slot ms) (ident t # protoChain t)"

text \<open>\<open>callable()\<close> applied to the method \<open>propertyKey\<close> of \<open>t\<close>: the list found
  (or a new array when none is found) gets the entry pushed, and is stored in the slot
  of \<open>t\<close>.\<close>

definition callable :: "target \<Rightarrow> string \<Rightarrow> nat \<Rightarrow> metadata_store \<Rightarrow> metadata_store" where
  "callable t propertyKey d ms =
     (let entry = \<lparr>name = propertyKey, descriptor = d\<rparr> in
      case getMetadata ms t of
        Some r \<Rightarrow>
          ms\<lparr>slot := (slot ms)(ident t \<mapsto> r),
             arrays := (arrays ms)(r := arrays ms r @ [entry])\<rparr>
      | None \<Rightarrow>
          ms\<lparr>slot := (slot ms)(ident t \<mapsto> nextRef ms),
             arrays := (arrays ms)(nextRef ms := [entry]),
             nextRef := Suc (nextRef ms)\<rparr>)"

definition getCallableMethods :: "metadata_store \<Rightarrow> target \<Rightarrow> MethodMetadata list" where
  "getCallableMethods ms t = (case getMetadata ms t of Some r \<Rightarrow> arrays ms r | None \<Rightarrow> [])"

text \<open>\<open>some(method => method.name === methodName)\<close>: strict equality with a string,
  so a method name that is not a string equals no entry.\<close>

definition isCallableMethod :: "metadata_store \<Rightarrow> target \<Rightarrow> jsval \<Rightarrow> bool" where
  "isCallableMethod ms t methodName =
     list_ex (\<lambda>method. JString (name method) = methodName) (getCallableMethods ms t)"

text \<open>A program's decorator applications, in the order the class definitions run them.\<close>

type_synonym registration = "target \<times> string \<times> nat"

fun decorate :: "registration list \<Rightarrow> metadata_store \<Rightarrow> metadata_store" where
  "decorate [] ms = ms"
| "decorate ((t, k, d) # rs) ms = decorate rs (callable t k d ms)"

definition registered_on :: "registration list \<Rightarrow> obj \<Rightarrow> string \<Rightarrow> bool" where
  "registered_on rs c m = list_ex (\<lambda>(t, k, d). ident t = c \<and> k = m) rs"

definition registered :: "registration list \<Rightarrow> string \<Rightarrow> bool" where
  "registered rs m = list_ex (\<lambda>(t, k, d). k = m) rs"

definition decorated :: "registration list \<Rightarrow> obj \<Rightarrow> bool" where
  "decorated rs c = list_ex (\<lambda>(t, k, d). ident t = c) rs"

section \<open>What the platform supplies\<close>

text \<open>
  Text renderings the JavaScript engine and the host own: numbers and dates as text,
  \<open>Date.prototype.toISOString\<close>, \<open>toLocaleString\<close> for a time zone (which
  throws a \<open>RangeError\<close> for a zone it does not know: \<open>Inl\<close> its message), the
  JSON parser on a text, and the messages of the engine's own \<open>TypeError\<close>s.
\<close>

datatype engine_fault = NullDestructure | NullProperty | NotIterable | NoPrimitive

record platform =
  numberToString :: "int \<Rightarrow> string"
  dateToString :: "nat \<Rightarrow> string"
  toISOString :: "nat \<Rightarrow> string"
  toLocaleString :: "nat \<Rightarrow> string \<Rightarrow> string + string"
  parseJSON :: "string \<Rightarrow> string + jsval"
  faultMessage :: "engine_fault \<Rightarrow> string"

text \<open>The successive \<open>new Date()\<close> readings of one invocation.\<close>

type_synonym clock = "nat \<Rightarrow> nat"

section \<open>Errors\<close>

text \<open>
  Every error of the repository is a plain \<open>Error\<close> with a message; the constructors
  keep apart where it is thrown. \<open>NotCallableError\<close> and \<open>MethodMissingError\<close>
  are the two throws of \<open>dispatchRpcCall\<close>, \<open>TransportError\<close> and
  \<open>RemoteError\<close> the two of \<open>callMethod\<close>; the others are raised by the engine.
\<close>

datatype js_error =
    NotCallableError string
  | MethodMissingError string
  | TransportError nat string
  | RemoteError string
  | SyntaxError string
  | RangeError string
  | TypeError engine_fault
  | NetworkError string

text \<open>The two quotation marks, which a string literal cannot hold.\<close>

definition apostrophe :: string where
  "apostrophe = [CHR 0x27]"

definition quotation_mark :: string where
  "quotation_mark = [CHR 0x22]"

fun message :: "platform \<Rightarrow> js_error \<Rightarrow> string" where
  "message pf (NotCallableError m) =
     ''Method '' @ apostrophe @ m @ apostrophe @
     '' is not callable. Did you forget to add @callable()?''"
| "message pf (MethodMissingError m) =
     ''Method '' @ apostrophe @ m @ apostrophe @ '' not found on instance''"
| "message pf (TransportError st txt) =
     ''RPC call failed: '' @ numberToString pf (int st) @ '' '' @ txt"
| "message pf (RemoteError e) = ''RPC error: '' @ e"
| "message pf (SyntaxError msg) = msg"
| "message pf (RangeError msg) = msg"
| "message pf (TypeError f) = faultMessage pf f"
| "message pf (NetworkError msg) = msg"

section \<open>Conversions of the language\<close>

text \<open>
  \<open>ToString\<close>, as a template literal applies it. An object parsed from JSON renders
  as \<open>[object Object]\<close> unless it has a field \<open>toString\<close> of its own, which is
  never callable: then the conversion throws. An array joins its elements with commas,
  \<open>null\<close> and \<open>undefined\<close> elements as the empty text.
\<close>

fun toStr :: "platform \<Rightarrow> jsval \<Rightarrow> js_error + string"
  and joinStr :: "platform \<Rightarrow> jsval list \<Rightarrow> js_error + string" where
  "toStr pf JUndefined = Inr ''undefined''"
| "toStr pf JNull = Inr ''null''"
| "toStr pf (JBool b) = Inr (if b then ''true'' else ''false'')"
| "toStr pf (JNumber n) = Inr (numberToString pf n)"
| "toStr pf (JString s) = Inr s"
| "toStr pf (JDate d) = Inr (dateToString pf d)"
| "toStr pf (JArray xs) = joinStr pf xs"
| "toStr pf (JObject fs) =
     (if map_of fs ''toString'' \<noteq> None then Inl (TypeError NoPrimitive)
      else Inr ''[object Object]'')"
| "joinStr pf [] = Inr []"
| "joinStr pf (x # xs) =
     (case (if x = JUndefined \<or> x = JNull then Inr [] else toStr pf x) of
        Inl e \<Rightarrow> Inl e
      | Inr s \<Rightarrow>
          (if xs = [] then Inr s
           else case joinStr pf xs of Inl e \<Rightarrow> Inl e | Inr r \<Rightarrow> Inr (s @ '','' @ r)))"

text \<open>The spread \<open>...params\<close> of a call: an array gives its elements, a string its
  characters, anything else is not iterable.\<close>

fun spread :: "jsval \<Rightarrow> js_error + jsval list" where
  "spread (JArray xs) = Inr xs"
| "spread (JString s) = Inr (map (\<lambda>c. JString [c]) s)"
| "spread v = Inl (TypeError NotIterable)"

text \<open>
  \<open>JSON.stringify\<close>, read as the value its output denotes: a field whose value is
  \<open>undefined\<close> is left out, an \<open>undefined\<close> array element becomes \<open>null\<close>,
  a \<open>Date\<close> becomes its ISO text.
\<close>

fun jsonify :: "platform \<Rightarrow> jsval \<Rightarrow> jsval"
  and jsonify_elems :: "platform \<Rightarrow> jsval list \<Rightarrow> jsval list"
  and jsonify_fields :: "platform \<Rightarrow> (string \<times> jsval) list \<Rightarrow> (string \<times> jsval) list" where
  "jsonify pf (JArray xs) = JArray (jsonify_elems pf xs)"
| "jsonify pf (JObject fs) = JObject (jsonify_fields pf fs)"
| "jsonify pf (JDate d) = JString (toISOString pf d)"
| "jsonify pf JUndefined = JUndefined"
| "jsonify pf JNull = JNull"
| "jsonify pf (JBool b) = JBool b"
| "jsonify pf (JNumber n) = JNumber n"
| "jsonify pf (JString s) = JString s"
| "jsonify_elems pf [] = []"
| "jsonify_elems pf (x # xs) =
     (if x = JUndefined then JNull else jsonify pf x) # jsonify_elems pf xs"
| "jsonify_fields pf [] = []"
| "jsonify_fields pf ((k, v) # fs) =
     (if v = JUndefined then jsonify_fields pf fs else (k, jsonify pf v) # jsonify_fields pf fs)"

text \<open>The JSON-representable values: no \<open>undefined\<close> and no \<open>Date\<close> anywhere.\<close>

fun json_value :: "jsval \<Rightarrow> bool"
  and json_values :: "jsval list \<Rightarrow> bool"
  and json_fields :: "(string \<times> jsval) list \<Rightarrow> bool" where
  "json_value JUndefined = False"
| "json_value (JDate d) = False"
| "json_value JNull = True"
| "json_value (JBool b) = True"
| "json_value (JNumber n) = True"
| "json_value (JString s) = True"
| "json_value (JArray xs) = json_values xs"
| "json_value (JObject fs) = json_fields fs"
| "json_values [] = True"
| "json_values (x # xs) = (json_value x \<and> json_values xs)"
| "json_fields [] = True"
| "json_fields ((k, v) # fs) = (json_value v \<and> json_fields fs)"

section \<open>The dispatcher (lib/callable)\<close>

text \<open>
  An instance is its identity with its prototype chain, and its members by name: a
  function (taking the arguments and the instance's world, returning or throwing) or a
  property that is not a function. \<open>instance[method]\<close> converts the key to text.
\<close>

datatype 'w member =
    Function "jsval list \<Rightarrow> 'w \<Rightarrow> (js_error + jsval) \<times> 'w"
  | Property

record 'w js_instance =
  self :: target
  members :: "string \<Rightarrow> 'w member option"

definition dispatchRpcCall ::
  "platform \<Rightarrow> metadata_store \<Rightarrow> 'w js_instance \<Rightarrow> jsval \<Rightarrow> jsval \<Rightarrow> 'w \<Rightarrow> (js_error + jsval) \<times> 'w" where
  "dispatchRpcCall pf ms inst method params0 w =
     (let params = (if params0 = JUndefined then JArray [] else params0) in
      if \<not> isCallableMethod ms (self inst) method then
        (case toStr pf method of
           Inl e \<Rightarrow> (Inl e, w)
         | Inr m \<Rightarrow> (Inl (NotCallableError m), w))
      else
        (case toStr pf method of
           Inl e \<Rightarrow> (Inl e, w)
         | Inr m \<Rightarrow>
             (case members inst m of
                Some (Function f) \<Rightarrow>
                  (case spread params of
                     Inl e \<Rightarrow> (Inl e, w)
                   | Inr args \<Rightarrow> f args w)
              | _ \<Rightarrow> (Inl (MethodMissingError m), w))))"

section \<open>The stateful object (agent.ts)\<close>

record AgentState =
  counter :: int
  messages :: "string list"
  lastUpdated :: "nat option"

text \<open>
  What an invocation can observe and change: the instance's \<open>state\<close> field, the
  durable store behind \<open>this.storage.raw\<close> (the handle is optional, the code reaches
  it with \<open>?.\<close>), and the lines written with \<open>console.log\<close>.
\<close>

record world =
  state :: AgentState
  raw :: "(string \<rightharpoonup> AgentState) option"
  console :: "jsval list list"

definition initialState :: AgentState where
  "initialState = \<lparr>counter = 0, messages = [], lastUpdated = None\<rparr>"

text \<open>A newly constructed instance over the store \<open>r\<close>: the field initialiser
  gives the state, whatever the store holds.\<close>

definition new_instance :: "(string \<rightharpoonup> AgentState) option \<Rightarrow> world" where
  "new_instance r = \<lparr>state = initialState, raw = r, console = []\<rparr>"

definition state_value :: "AgentState \<Rightarrow> jsval" where
  "state_value s =
     JObject [(''counter'', JNumber (counter s)),
              (''messages'', JArray (map JString (messages s))),
              (''lastUpdated'', case lastUpdated s of None \<Rightarrow> JNull | Some d \<Rightarrow> JDate d)]"

text \<open>\<open>xs.slice(-n)\<close>: the last \<open>n\<close> elements, all of them when there are fewer.\<close>

definition slice_last :: "nat \<Rightarrow> 'a list \<Rightarrow> 'a list" where
  "slice_last n xs = drop (length xs - n) xs"

text \<open>\<open>await this.storage.raw?.put("state", this.state)\<close> and
  \<open>await this.storage.raw?.get("state")\<close>.\<close>

definition put_state :: "world \<Rightarrow> world" where
  "put_state w = w\<lparr>raw := map_option (\<lambda>st. st(''state'' \<mapsto> state w)) (raw w)\<rparr>"

definition get_state :: "world \<Rightarrow> AgentState option" where
  "get_state w = (case raw w of None \<Rightarrow> None | Some st \<Rightarrow> st ''state'')"

definition log :: "jsval list \<Rightarrow> world \<Rightarrow> world" where
  "log line w = w\<lparr>console := console w @ [line]\<rparr>"

text \<open>
  \<open>ping\<close>: the console line first (its template may throw when the time zone does
  not render as text), then the new state, the \<open>put\<close>, and the answer. Where the time
  zone is truthy, \<open>tz\<close> below is its own text, which is also what
  \<open>toLocaleString\<close> makes of its \<open>timeZone\<close> option. The clock readings are, in
  order, \<open>lastUpdated\<close>, the log entry's time and \<open>now\<close>.
\<close>

definition ping :: "platform \<Rightarrow> clock \<Rightarrow> jsval \<Rightarrow> world \<Rightarrow> (js_error + jsval) \<times> world" where
  "ping pf clk timezone w =
     (case (if truthy timezone
            then (case toStr pf timezone of Inl e \<Rightarrow> Inl e | Inr s \<Rightarrow> Inr (''for timezone: '' @ s))
            else Inr []) of
        Inl e \<Rightarrow> (Inl e, w)
      | Inr note \<Rightarrow>
          (let w1 = log [JString ''Ping received, responding with pong'', JString note] w in
           case toStr pf (if truthy timezone then timezone else JString ''default'') of
             Inl e \<Rightarrow> (Inl e, w1)
           | Inr tz \<Rightarrow>
               (let w2 = w1\<lparr>state := (state w1)
                            \<lparr>counter := counter (state w1) + 1,
                             lastUpdated := Some (clk 0),
                             messages := slice_last 10 (messages (state w1) @
                               [''ping '' @ tz @ '' at '' @ toISOString pf (clk 1)])\<rparr>\<rparr>;
                    w3 = put_state w2
                in if truthy timezone then
                     (case toLocaleString pf (clk 2) tz of
                        Inl msg \<Rightarrow> (Inl (RangeError msg), w3)
                      | Inr txt \<Rightarrow> (Inr (JString (''pong from '' @ tz @ '' at '' @ txt)), w3))
                   else (Inr (JString ''pong''), w3))))"

definition getState :: "world \<Rightarrow> (js_error + jsval) \<times> world" where
  "getState w =
     (Inr (state_value (case get_state w of Some stored \<Rightarrow> stored | None \<Rightarrow> state w)), w)"

definition addMessage :: "platform \<Rightarrow> clock \<Rightarrow> jsval \<Rightarrow> world \<Rightarrow> (js_error + jsval) \<times> world" where
  "addMessage pf clk msg w =
     (let w1 = log [JString ''Adding message:'', msg] w in
      case toStr pf msg of
        Inl e \<Rightarrow> (Inl e, w1)
      | Inr m \<Rightarrow>
          (let w2 = w1\<lparr>state := (state w1)
                       \<lparr>messages := slice_last 10 (messages (state w1) @
                          [m @ '' at '' @ toISOString pf (clk 0)])\<rparr>\<rparr>;
               w3 = put_state w2
           in (Inr (JString (''Message '' @ quotation_mark @ m @ quotation_mark @
                 '' added successfully'')), w3)))"

definition dangerousMethod :: "world \<Rightarrow> (js_error + jsval) \<times> world" where
  "dangerousMethod w =
     (Inr (JString ''This method should not be accessible''),
      log [JString ''This should not be callable from RPC!''] w)"

text \<open>The i-th argument of a call, \<open>undefined\<close> when fewer were passed.\<close>

definition arg :: "jsval list \<Rightarrow> nat \<Rightarrow> jsval" where
  "arg args i = (if i < length args then args ! i else JUndefined)"

text \<open>
  The members the class declares. (The members inherited from \<open>Actor\<close> are not
  listed: a member is looked up only for a name that passed the registry.)
\<close>

definition agent_members :: "platform \<Rightarrow> clock \<Rightarrow> string \<Rightarrow> world member option" where
  "agent_members pf clk m =
     (if m = ''ping'' then Some (Function (\<lambda>args. ping pf clk (arg args 0)))
      else if m = ''getState'' then Some (Function (\<lambda>args. getState))
      else if m = ''addMessage'' then Some (Function (\<lambda>args. addMessage pf clk (arg args 0)))
      else if m = ''dangerousMethod'' then Some (Function (\<lambda>args. dangerousMethod))
      else if m = ''state'' then Some Property
      else None)"

text \<open>
  The objects: \<open>AgentObject.prototype\<close> (40) above \<open>Actor.prototype\<close> (30),
  \<open>DurableObject.prototype\<close> (20) and \<open>Object.prototype\<close> (10); an instance has the class
  prototype first in its chain. The three decorators run at class definition, in the
  order of the methods.
\<close>

definition AgentObject_prototype :: target where
  "AgentObject_prototype = \<lparr>ident = 40, protoChain = [30, 20, 10]\<rparr>"

definition AgentObject :: "platform \<Rightarrow> clock \<Rightarrow> obj \<Rightarrow> world js_instance" where
  "AgentObject pf clk oid =
     \<lparr>self = \<lparr>ident = oid, protoChain = [40, 30, 20, 10]\<rparr>, members = agent_members pf clk\<rparr>"

definition agent_registrations :: "registration list" where
  "agent_registrations =
     [(AgentObject_prototype, ''ping'', 0),
      (AgentObject_prototype, ''getState'', 1),
      (AgentObject_prototype, ''addMessage'', 2)]"

definition agent_registry :: metadata_store where
  "agent_registry = decorate agent_registrations no_metadata"

subsection \<open>The entry point\<close>

text \<open>A request, with the outcome of \<open>request.json()\<close>: the parsed value, or the
  message of the \<open>SyntaxError\<close> it rejects with.\<close>

record request =
  pathname :: string
  httpMethod :: string
  jsonBody :: "string + jsval"

datatype body = Text string | Json jsval

record response =
  status :: nat
  statusText :: string
  contentType :: string
  body :: body

definition json_response :: "platform \<Rightarrow> nat \<Rightarrow> jsval \<Rightarrow> response" where
  "json_response pf st v =
     \<lparr>status = st, statusText = [], contentType = ''application/json'',
      body = Json (jsonify pf v)\<rparr>"

text \<open>
  \<open>AgentObject.fetch\<close>; it touches the instance through \<open>dispatchRpcCall(this, ...)\<close>
  only, so it is stated for any instance. \<open>const { method, params = [] } = body\<close>
  throws on \<open>null\<close>; the default replaces an absent \<open>params\<close> only. Every throw
  inside the \<open>try\<close> ends in the one \<open>catch\<close>.
\<close>

definition fetch ::
  "platform \<Rightarrow> metadata_store \<Rightarrow> 'w js_instance \<Rightarrow> request \<Rightarrow> 'w \<Rightarrow> response \<times> 'w" where
  "fetch pf ms inst req w =
     (if suffix ''/rpc'' (pathname req) \<and> httpMethod req = ''POST'' then
        (case (case jsonBody req of
                 Inl msg \<Rightarrow> (Inl (SyntaxError msg), w)
               | Inr b \<Rightarrow>
                   if b = JNull \<or> b = JUndefined then (Inl (TypeError NullDestructure), w)
                   else dispatchRpcCall pf ms inst (getField b ''method'')
                          (if getField b ''params'' = JUndefined then JArray []
                           else getField b ''params'') w) of
           (Inr result, w') \<Rightarrow> (json_response pf 200 (JObject [(''result'', result)]), w')
         | (Inl error, w') \<Rightarrow>
             (json_response pf 500 (JObject [(''error'', JString (message pf error))]), w'))
      else
        (\<lparr>status = 200, statusText = [], contentType = ''text/plain;charset=UTF-8'',
          body = Text ''Hello from Actor!''\<rparr>, w))"

section \<open>The client proxy (lib/actorClient)\<close>

record rpc_request =
  url :: string
  verb :: string
  requestContentType :: string
  payload :: jsval

text \<open>\<open>response.ok\<close> and \<open>response.json()\<close>.\<close>

definition ok :: "response \<Rightarrow> bool" where
  "ok r = (200 \<le> status r \<and> status r \<le> 299)"

definition bodyJson :: "platform \<Rightarrow> response \<Rightarrow> string + jsval" where
  "bodyJson pf r = (case body r of Json v \<Rightarrow> Inr v | Text s \<Rightarrow> parseJSON pf s)"

text \<open>The transport is the global \<open>fetch\<close>: it answers with a response or rejects
  (\<open>Inl\<close>) when the network fails.\<close>

definition callMethod ::
  "platform \<Rightarrow> (rpc_request \<Rightarrow> string + response) \<Rightarrow> string \<Rightarrow> string \<Rightarrow>
   string \<Rightarrow> jsval list option \<Rightarrow> js_error + jsval" where
  "callMethod pf transport actorName actorId method params =
     (case transport
             \<lparr>url = ''/actors/'' @ actorName @ ''/'' @ actorId @ ''/rpc'',
              verb = ''POST'',
              requestContentType = ''application/json'',
              payload = jsonify pf (JObject [(''method'', JString method),
                (''params'', JArray (case params of None \<Rightarrow> [] | Some ps \<Rightarrow> ps))])\<rparr> of
        Inl msg \<Rightarrow> Inl (NetworkError msg)
      | Inr resp \<Rightarrow>
          if \<not> ok resp then Inl (TransportError (status resp) (statusText resp))
          else
            (case bodyJson pf resp of
               Inl msg \<Rightarrow> Inl (SyntaxError msg)
             | Inr result \<Rightarrow>
                 if result = JNull \<or> result = JUndefined then Inl (TypeError NullProperty)
                 else if truthy (getField result ''error'') then
                   (case toStr pf (getField result ''error'') of
                      Inl e \<Rightarrow> Inl e
                    | Inr txt \<Rightarrow> Inl (RemoteError txt))
                 else Inr (getField result ''result'')))"

section \<open>Notions the properties are stated with\<close>

text \<open>The client-error range of statuses.\<close>

definition client_error_status :: "nat \<Rightarrow> bool" where
  "client_error_status st = (400 \<le> st \<and> st \<le> 499)"

text \<open>A transport that answers every request with the given response.\<close>

definition answering :: "response \<Rightarrow> rpc_request \<Rightarrow> string + response" where
  "answering r creq = Inr r"

text \<open>A sequence of \<open>addMessage\<close> calls with text arguments, each with the clock of
  its invocation, and the log entry one such call appends.\<close>

fun addMessages :: "platform \<Rightarrow> (clock \<times> string) list \<Rightarrow> world \<Rightarrow> world" where
  "addMessages pf [] w = w"
| "addMessages pf ((clk, s) # cs) w = addMessages pf cs (snd (addMessage pf clk (JString s) w))"

definition entry :: "platform \<Rightarrow> clock \<times> string \<Rightarrow> string" where
  "entry pf c = snd c @ '' at '' @ toISOString pf (fst c 0)"

text \<open>A platform and a clock to evaluate examples with; the renderings stand for
  whatever the engine would print.\<close>

definition sample_platform :: platform where
  "sample_platform =
     \<lparr>numberToString = (\<lambda>n. ''number''),
      dateToString = (\<lambda>d. ''date''),
      toISOString = (\<lambda>d. ''2025-01-01T00:00:00.000Z''),
      toLocaleString = (\<lambda>d tz. if tz = ''UTC'' then Inr ''1/1/2025, 12:00:00 AM''
                                else Inl ''Invalid time zone specified''),
      parseJSON = (\<lambda>s. Inl ''Unexpected token''),
      faultMessage = (\<lambda>f. ''TypeError'')\<rparr>"

definition sample_clock :: clock where
  "sample_clock k = 0"

definition sample_agent :: "world js_instance" where
  "sample_agent = AgentObject sample_platform sample_clock 7"

definition fifteen_calls :: "(clock \<times> string) list" where
  "fifteen_calls =
     map (Pair sample_clock)
       [''m1'', ''m2'', ''m3'', ''m4'', ''m5'', ''m6'', ''m7'', ''m8'', ''m9'', ''m10'',
        ''m11'', ''m12'', ''m13'', ''m14'', ''m15'']"

text \<open>Whether a name was registered on the target itself or on an object of its
  prototype chain: the registrations a class has of its own or inherits.\<close>

definition registered_along :: "registration list \<Rightarrow> target \<Rightarrow> string \<Rightarrow> bool" where
  "registered_along rs t m = list_ex (\<lambda>c. registered_on rs c m) (ident t # protoChain t)"

text \<open>
  A program with one more class: a subclass of \<open>AgentObject\<close> (prototype 60) that
  overrides \<open>dangerousMethod\<close> and decorates its override. Its decorator runs after
  those of \<open>AgentObject\<close>, whose own \<open>dangerousMethod\<close> stays undecorated.
\<close>

definition subclass_prototype :: target where
  "subclass_prototype = \<lparr>ident = 60, protoChain = [40, 30, 20, 10]\<rparr>"

definition subclass_registrations :: "registration list" where
  "subclass_registrations = agent_registrations @ [(subclass_prototype, ''dangerousMethod'', 3)]"

definition subclass_registry :: metadata_store where
  "subclass_registry = decorate subclass_registrations no_metadata"

definition rpc_post :: "string + jsval \<Rightarrow> request" where
  "rpc_post b = \<lparr>pathname = ''/actors/AgentObject/session-1/rpc'', httpMethod = ''POST'', jsonBody = b\<rparr>"

section \<open>Invariant of the metadata store\<close>

text \<open>
  What holds of the store after any sequence of decorator applications: a slot refers
  to an allocated array and belongs to a decorated object; every entry of every array
  was registered by some application; and an object's own registrations are in the
  array its slot refers to.
\<close>

definition store_inv :: "registration list \<Rightarrow> metadata_store \<Rightarrow> bool" where
  "store_inv rs ms \<longleftrightarrow>
     (\<forall>c r. slot ms c = Some r \<longrightarrow> r < nextRef ms \<and> decorated rs c) \<and>
     (\<forall>r. \<forall>e \<in> set (arrays ms r). registered rs (name e)) \<and>
     (\<forall>c m. registered_on rs c m \<longrightarrow> (\<exists>r. slot ms c = Some r \<and> m \<in> name ` set (arrays ms r)))"

section \<open>Properties of the registry\<close>

lemma decorate_append: "decorate (rs @ rs') ms = decorate rs' (decorate rs ms)"
  by (induction rs arbitrary: ms) auto

lemma lookup_chain_Some: "lookup_chain sl cs = Some r \<Longrightarrow> \<exists>c \<in> set cs. sl c = Some r"
  by (induction cs) (auto split: option.splits)

lemma lookup_chain_reach:
  "c \<in> set cs \<Longrightarrow> \<forall>x \<in> set (takeWhile (\<lambda>x. x \<noteq> c) cs). sl x = None \<Longrightarrow> sl c = Some r \<Longrightarrow>
   lookup_chain sl cs = Some r"
proof (induction cs)
  case Nil
  then show ?case by simp
next
  case (Cons a cs)
  show ?case
  proof (cases "a = c")
    case True
    with Cons.prems show ?thesis by simp
  next
    case False
    with Cons.prems have "sl a = None" "c \<in> set cs"
      "\<forall>x \<in> set (takeWhile (\<lambda>x. x \<noteq> c) cs). sl x = None" by simp_all
    with Cons.IH Cons.prems(3) show ?thesis by simp
  qed
qed

lemma getMetadata_None_slot: "getMetadata ms t = None \<Longrightarrow> slot ms (ident t) = None"
  by (simp add: getMetadata_def split: option.splits)

lemma getMetadata_own: "slot ms (ident t) = Some r \<Longrightarrow> getMetadata ms t = Some r"
  by (simp add: getMetadata_def)

lemma registered_snoc: "registered (rs @ [(t, k, d)]) m \<longleftrightarrow> registered rs m \<or> k = m"
  by (auto simp: registered_def list_ex_iff)

lemma registered_on_snoc:
  "registered_on (rs @ [(t, k, d)]) c m \<longleftrightarrow> registered_on rs c m \<or> (ident t = c \<and> k = m)"
  by (auto simp: registered_on_def list_ex_iff)

lemma decorated_snoc: "decorated (rs @ [(t, k, d)]) c \<longleftrightarrow> decorated rs c \<or> ident t = c"
  by (auto simp: decorated_def list_ex_iff)

lemma decorate_snoc: "decorate (rs @ [(t, k, d)]) ms = callable t k d (decorate rs ms)"
  by (simp add: decorate_append)

lemma store_inv_empty: "store_inv [] no_metadata"
  by (simp add: store_inv_def no_metadata_def registered_on_def)

lemma store_inv_callable:
  assumes inv: "store_inv rs ms"
  shows "store_inv (rs @ [(t, k, d)]) (callable t k d ms)"
proof -
  from inv have fresh: "\<And>c r. slot ms c = Some r \<Longrightarrow> r < nextRef ms"
    and dec: "\<And>c r. slot ms c = Some r \<Longrightarrow> decorated rs c"
    and names: "\<And>r e. e \<in> set (arrays ms r) \<Longrightarrow> registered rs (name e)"
    and reg: "\<And>c m. registered_on rs c m \<Longrightarrow> \<exists>r. slot ms c = Some r \<and> m \<in> name ` set (arrays ms r)"
    unfolding store_inv_def by blast+
  let ?rs = "rs @ [(t, k, d)]" and ?ms = "callable t k d ms"
  show ?thesis
  proof (cases "getMetadata ms t")
    case None
    then have own: "slot ms (ident t) = None" by (rule getMetadata_None_slot)
    have sl: "slot ?ms = (slot ms)(ident t \<mapsto> nextRef ms)"
      and ar: "arrays ?ms = (arrays ms)(nextRef ms := [\<lparr>name = k, descriptor = d\<rparr>])"
      and nx: "nextRef ?ms = Suc (nextRef ms)"
      using None by (simp_all add: callable_def)
    have 1: "\<forall>c r. slot ?ms c = Some r \<longrightarrow> r < nextRef ?ms \<and> decorated ?rs c"
      using fresh dec by (auto simp: sl nx decorated_snoc less_Suc_eq)
    have 2: "\<forall>r. \<forall>e \<in> set (arrays ?ms r). registered ?rs (name e)"
      using names by (auto simp: ar registered_snoc)
    have 3: "\<forall>c m. registered_on ?rs c m \<longrightarrow> (\<exists>r. slot ?ms c = Some r \<and> m \<in> name ` set (arrays ?ms r))"
    proof (intro allI impI)
      fix c m assume "registered_on ?rs c m"
      then consider "registered_on rs c m" | "ident t = c" "k = m"
        by (auto simp: registered_on_snoc)
      then show "\<exists>r. slot ?ms c = Some r \<and> m \<in> name ` set (arrays ?ms r)"
      proof cases
        case 1
        then obtain r where r: "slot ms c = Some r" "m \<in> name ` set (arrays ms r)"
          using reg by blast
        with own have "c \<noteq> ident t" by auto
        moreover from r fresh have "r \<noteq> nextRef ms" by fastforce
        ultimately show ?thesis using r by (simp add: sl ar)
      next
        case 2
        show ?thesis unfolding sl ar using 2 by auto
      qed
    qed
    from 1 2 3 show ?thesis unfolding store_inv_def by blast
  next
    case (Some r)
    then obtain c0 where c0: "slot ms c0 = Some r"
      unfolding getMetadata_def by (blast dest: lookup_chain_Some)
    have sl: "slot ?ms = (slot ms)(ident t \<mapsto> r)"
      and ar: "arrays ?ms = (arrays ms)(r := arrays ms r @ [\<lparr>name = k, descriptor = d\<rparr>])"
      and nx: "nextRef ?ms = nextRef ms"
      using Some by (simp_all add: callable_def)
    have 1: "\<forall>c r'. slot ?ms c = Some r' \<longrightarrow> r' < nextRef ?ms \<and> decorated ?rs c"
      using fresh dec c0 by (auto simp: sl nx decorated_snoc)
    have 2: "\<forall>r'. \<forall>e \<in> set (arrays ?ms r'). registered ?rs (name e)"
      using names by (auto simp: ar registered_snoc)
    have 3: "\<forall>c m. registered_on ?rs c m \<longrightarrow> (\<exists>r'. slot ?ms c = Some r' \<and> m \<in> name ` set (arrays ?ms r'))"
    proof (intro allI impI)
      fix c m assume "registered_on ?rs c m"
      then consider "registered_on rs c m" | "ident t = c" "k = m"
        by (auto simp: registered_on_snoc)
      then show "\<exists>r'. slot ?ms c = Some r' \<and> m \<in> name ` set (arrays ?ms r')"
      proof cases
        case 1
        then obtain r' where r': "slot ms c = Some r'" "m \<in> name ` set (arrays ms r')"
          using reg by blast
        show ?thesis
        proof (cases "c = ident t")
          case True
          with r' have "getMetadata ms t = Some r'" by (simp add: getMetadata_own)
          with Some have "r' = r" by simp
          with r' True show ?thesis by (auto simp: sl ar)
        next
          case False
          with r' show ?thesis by (auto simp: sl ar)
        qed
      next
        case 2
        show ?thesis unfolding sl ar using 2 by auto
      qed
    qed
    from 1 2 3 show ?thesis unfolding store_inv_def by blast
  qed
qed

lemma store_inv_decorate: "store_inv rs (decorate rs no_metadata)"
proof (induction rs rule: rev_induct)
  case Nil
  show ?case by (simp add: store_inv_empty)
next
  case (snoc x rs)
  obtain t k d where "x = (t, k, d)" by (cases x) auto
  with snoc show ?case by (simp add: decorate_snoc store_inv_callable)
qed

lemma callable_only_registered:
  assumes "isCallableMethod (decorate rs no_metadata) t v"
  shows "\<exists>m. v = JString m \<and> registered rs m"
proof -
  let ?ms = "decorate rs no_metadata"
  have inv: "store_inv rs ?ms" by (rule store_inv_decorate)
  from assms obtain e where e: "e \<in> set (getCallableMethods ?ms t)" "v = JString (name e)"
    by (auto simp: isCallableMethod_def list_ex_iff)
  then obtain r where "e \<in> set (arrays ?ms r)"
    by (auto simp: getCallableMethods_def split: option.splits)
  with inv have "registered rs (name e)" unfolding store_inv_def by blast
  with e show ?thesis by blast
qed

text \<open>
  A registration is found by every target that reaches it first on its prototype
  chain: the class itself, its instances, and the subclasses that register nothing.
\<close>

lemma registered_is_callable:
  assumes c: "c \<in> set (ident t # protoChain t)"
    and first: "\<forall>x \<in> set (takeWhile (\<lambda>x. x \<noteq> c) (ident t # protoChain t)). \<not> decorated rs x"
    and reg: "registered_on rs c m"
  shows "isCallableMethod (decorate rs no_metadata) t (JString m)"
proof -
  let ?ms = "decorate rs no_metadata"
  have inv: "store_inv rs ?ms" by (rule store_inv_decorate)
  from reg obtain r where r: "slot ?ms c = Some r" "m \<in> name ` set (arrays ?ms r)"
    using inv unfolding store_inv_def by blast
  have "\<forall>x \<in> set (takeWhile (\<lambda>x. x \<noteq> c) (ident t # protoChain t)). slot ?ms x = None"
  proof
    fix x assume "x \<in> set (takeWhile (\<lambda>x. x \<noteq> c) (ident t # protoChain t))"
    with first have "\<not> decorated rs x" by blast
    with inv show "slot ?ms x = None" unfolding store_inv_def by (cases "slot ?ms x") auto
  qed
  with c r have "getMetadata ?ms t = Some r"
    unfolding getMetadata_def by (blast intro: lookup_chain_reach)
  with r show ?thesis
    by (auto simp: isCallableMethod_def getCallableMethods_def list_ex_iff)
qed

text \<open>
  C1 says that \<open>isCallableMethod(C, m)\<close> is true only if \<open>m\<close> was registered on
  \<open>C\<close> (or on an ancestor whose registration \<open>C\<close> inherits), and never for a
  method that exists on the instance without being registered. The code breaks this
  where a subclass registers a method of its own: \<open>callable\<close> pushes the entry onto
  the array it found through the parent, in place, so the parent's list grows too.
  With the subclass of \<open>AgentObject\<close> that decorates its \<open>dangerousMethod\<close>,
  \<open>isCallableMethod(AgentObject.prototype, "dangerousMethod")\<close> is true although the
  name was registered neither on \<open>AgentObject\<close> nor on any of its ancestors.
\<close>

theorem isCallableMethod_subclass_leak:
  "isCallableMethod subclass_registry AgentObject_prototype (JString ''dangerousMethod'') \<and>
   \<not> registered_along subclass_registrations AgentObject_prototype ''dangerousMethod''"
  by (simp add: isCallableMethod_def getCallableMethods_def getMetadata_def callable_def
      no_metadata_def subclass_registry_def AgentObject_prototype_def registered_along_def
      registered_on_def subclass_registrations_def agent_registrations_def subclass_prototype_def)

section \<open>The registry of the agent, and example requests\<close>

lemma agent_slot: "getMetadata agent_registry \<lparr>ident = oid, protoChain = [40, 30, 20, 10]\<rparr> = Some 0"
  by (simp add: agent_registry_def agent_registrations_def AgentObject_prototype_def
      getMetadata_def callable_def no_metadata_def)

lemma agent_list:
  "getCallableMethods agent_registry \<lparr>ident = oid, protoChain = [40, 30, 20, 10]\<rparr> =
     [\<lparr>name = ''ping'', descriptor = 0\<rparr>, \<lparr>name = ''getState'', descriptor = 1\<rparr>,
      \<lparr>name = ''addMessage'', descriptor = 2\<rparr>]"
  unfolding getCallableMethods_def agent_slot
  by (simp add: agent_registry_def agent_registrations_def AgentObject_prototype_def
      getMetadata_def callable_def no_metadata_def)

lemma agent_callable_target:
  "isCallableMethod agent_registry \<lparr>ident = oid, protoChain = [40, 30, 20, 10]\<rparr> v \<longleftrightarrow>
     v = JString ''ping'' \<or> v = JString ''getState'' \<or> v = JString ''addMessage''"
  by (auto simp: isCallableMethod_def agent_list)

lemma agent_callable:
  "isCallableMethod agent_registry (self (AgentObject pf clk oid)) v \<longleftrightarrow>
     v = JString ''ping'' \<or> v = JString ''getState'' \<or> v = JString ''addMessage''"
  by (simp add: AgentObject_def agent_callable_target)

lemma not_callable_undefined: "\<not> isCallableMethod ms t JUndefined"
  by (simp add: isCallableMethod_def list_ex_iff)

lemma rpc_post_path: "suffix ''/rpc'' (pathname (rpc_post b))"
  unfolding suffix_def rpc_post_def
  by (rule exI [of _ "''/actors/AgentObject/session-1''"]) simp

lemma rpc_post_method: "httpMethod (rpc_post b) = ''POST''"
  by (simp add: rpc_post_def)

lemma rpc_post_body: "jsonBody (rpc_post b) = b"
  by (simp add: rpc_post_def)

section \<open>Properties of the dispatcher and the entry point\<close>

text \<open>
  The dispatcher's check: a name that is not in the list \<open>getCallableMethods\<close>
  returns for the instance is refused with the not-callable error, and the world is
  handed back as it was; so is, on the registry any decorator applications built, a name
  that none of them registered.
\<close>

lemma dispatch_refuses_unlisted:
  "m \<notin> name ` set (getCallableMethods ms (self inst)) \<Longrightarrow>
   dispatchRpcCall pf ms inst (JString m) params w = (Inl (NotCallableError m), w)"
  by (auto simp: dispatchRpcCall_def isCallableMethod_def list_ex_iff)

lemma dispatch_refuses_unregistered_name:
  assumes "\<not> registered rs m"
  shows "dispatchRpcCall pf (decorate rs no_metadata) inst (JString m) params w =
    (Inl (NotCallableError m), w)"
proof -
  from assms have "\<not> isCallableMethod (decorate rs no_metadata) (self inst) (JString m)"
    by (auto dest: callable_only_registered)
  then show ?thesis by (simp add: dispatchRpcCall_def)
qed

lemma subclass_list:
  "getCallableMethods subclass_registry \<lparr>ident = oid, protoChain = [40, 30, 20, 10]\<rparr> =
     [\<lparr>name = ''ping'', descriptor = 0\<rparr>, \<lparr>name = ''getState'', descriptor = 1\<rparr>,
      \<lparr>name = ''addMessage'', descriptor = 2\<rparr>, \<lparr>name = ''dangerousMethod'', descriptor = 3\<rparr>]"
  by (simp add: getCallableMethods_def subclass_registry_def subclass_registrations_def
      subclass_prototype_def agent_registrations_def AgentObject_prototype_def getMetadata_def
      callable_def no_metadata_def)

text \<open>
  C2 says that dispatching a method name that is not registered for the instance fails
  with the not-callable error, without running the method and with the state unchanged.
  The code breaks this through the shared array: once the subclass of \<open>AgentObject\<close>
  has decorated its own \<open>dangerousMethod\<close>, dispatching \<open>dangerousMethod\<close> on a
  plain \<open>AgentObject\<close> instance, where the name is registered neither on the
  instance nor on any object of its prototype chain, runs the undecorated body: it
  returns the body's value and the console holds the body's line.
\<close>

theorem dispatch_runs_undecorated_body:
  "dispatchRpcCall sample_platform subclass_registry sample_agent (JString ''dangerousMethod'')
     (JArray []) (new_instance None) =
     (Inr (JString ''This method should not be accessible''),
      log [JString ''This should not be callable from RPC!''] (new_instance None)) \<and>
   \<not> registered_along subclass_registrations (self sample_agent) ''dangerousMethod''"
  by (simp add: dispatchRpcCall_def isCallableMethod_def sample_agent_def AgentObject_def
      subclass_list agent_members_def dangerousMethod_def registered_along_def registered_on_def
      subclass_registrations_def agent_registrations_def subclass_prototype_def
      AgentObject_prototype_def)

text \<open>
  C3, as stated: a request whose body does not parse is answered with a client-error
  status. The entry point has one \<open>catch\<close>, which answers 500: for a body that is
  not JSON the status is not in the client-error range.
\<close>

theorem fetch_malformed_counterexample:
  "\<not> client_error_status (status (fst (fetch sample_platform agent_registry sample_agent
       (rpc_post (Inl ''Unexpected end of JSON input'')) (new_instance None))))"
  by (simp add: fetch_def rpc_post_path rpc_post_method rpc_post_body json_response_def
      client_error_status_def)

text \<open>
  C3, amended: every RPC-shaped request whose body is missing or is not JSON
  (\<open>request.json()\<close> rejects), or is \<open>null\<close>, is answered with status 500 and the
  error envelope carrying the engine's message; the answer depends on neither the
  registry nor the instance (no dispatch is attempted) and the world is unchanged. A
  body that parses but has no \<open>method\<close> is dispatched with the method
  \<open>undefined\<close>, which the registry check refuses: status 500, the not-callable
  message, the world unchanged.
\<close>

theorem fetch_malformed:
  assumes "suffix ''/rpc'' (pathname req)" and "httpMethod req = ''POST''"
  shows "(jsonBody req = Inl msg \<longrightarrow>
            fetch pf ms inst req w =
              (json_response pf 500 (JObject [(''error'', JString msg)]), w)) \<and>
         (jsonBody req = Inr JNull \<longrightarrow>
            fetch pf ms inst req w =
              (json_response pf 500
                 (JObject [(''error'', JString (faultMessage pf NullDestructure))]), w)) \<and>
         (jsonBody req = Inr b \<and> b \<noteq> JNull \<and> b \<noteq> JUndefined \<and> getField b ''method'' = JUndefined \<longrightarrow>
            fetch pf ms inst req w =
              (json_response pf 500
                 (JObject [(''error'', JString (message pf (NotCallableError ''undefined'')))]), w))"
  using assms by (simp add: fetch_def dispatchRpcCall_def not_callable_undefined)

theorem fetch_malformed_witness:
  "fetch sample_platform agent_registry sample_agent (rpc_post (Inl ''Unexpected end of JSON input''))
     (new_instance None) =
     (json_response sample_platform 500
        (JObject [(''error'', JString ''Unexpected end of JSON input'')]), new_instance None) \<and>
   fetch sample_platform agent_registry sample_agent (rpc_post (Inr JNull)) (new_instance None) =
     (json_response sample_platform 500 (JObject [(''error'', JString ''TypeError'')]),
      new_instance None) \<and>
   fetch sample_platform agent_registry sample_agent (rpc_post (Inr (JObject [(''params'', JArray [])])))
     (new_instance None) =
     (json_response sample_platform 500
        (JObject [(''error'', JString (message sample_platform (NotCallableError ''undefined'')))]),
      new_instance None) \<and>
   status (json_response sample_platform 500 (JObject [])) = 500"
  using fetch_malformed [where req = "rpc_post (Inl ''Unexpected end of JSON input'')"
      and msg = "''Unexpected end of JSON input''" and pf = sample_platform and ms = agent_registry
      and inst = sample_agent and w = "new_instance None" and b = JNull]
    fetch_malformed [where req = "rpc_post (Inr JNull)" and msg = "[]" and b = JNull
      and pf = sample_platform and ms = agent_registry
      and inst = sample_agent and w = "new_instance None"]
    fetch_malformed [where req = "rpc_post (Inr (JObject [(''params'', JArray [])]))"
      and b = "JObject [(''params'', JArray [])]" and msg = "[]"
      and pf = sample_platform and ms = agent_registry
      and inst = sample_agent and w = "new_instance None"]
  by (simp add: rpc_post_path rpc_post_method rpc_post_body sample_platform_def json_response_def)

text \<open>
  C10: for every RPC request whose body is an object without a \<open>params\<close> field, the
  entry point calls the dispatcher with the body's method and the empty parameter
  list, and answers with that call's outcome: the result envelope when it returns, the
  error envelope when it throws.
\<close>

theorem fetch_params_default:
  "suffix ''/rpc'' (pathname req) \<Longrightarrow> httpMethod req = ''POST'' \<Longrightarrow>
   jsonBody req = Inr (JObject fs) \<Longrightarrow> map_of fs ''params'' = None \<Longrightarrow>
   fetch pf ms inst req w =
     (case dispatchRpcCall pf ms inst (getField (JObject fs) ''method'') (JArray []) w of
        (Inr result, w') \<Rightarrow> (json_response pf 200 (JObject [(''result'', result)]), w')
      | (Inl error, w') \<Rightarrow>
          (json_response pf 500 (JObject [(''error'', JString (message pf error))]), w'))"
  by (simp add: fetch_def)

theorem fetch_params_default_witness:
  "fst (fetch sample_platform agent_registry sample_agent
          (rpc_post (Inr (JObject [(''method'', JString ''ping'')]))) (new_instance None)) =
     json_response sample_platform 200 (JObject [(''result'', JString ''pong'')])"
  using fetch_params_default [where req = "rpc_post (Inr (JObject [(''method'', JString ''ping'')]))"
      and fs = "[(''method'', JString ''ping'')]" and pf = sample_platform and ms = agent_registry
      and inst = sample_agent and w = "new_instance None"]
  by (simp add: rpc_post_path rpc_post_method rpc_post_body dispatchRpcCall_def sample_agent_def
      agent_callable_target AgentObject_def agent_members_def ping_def arg_def Let_def)

section \<open>Properties of the agent's state\<close>

text \<open>
  C4: \<open>getState\<close> on a newly constructed instance (in-memory state the default)
  returns the value stored under the key when there is one and the default otherwise,
  nothing else; after a \<open>put\<close> of the state, and after an \<open>addMessage\<close> that
  reached its \<open>put\<close>, a new instance over the same store returns the state that was
  stored.
\<close>

theorem getState_after_restart:
  "fst (getState (new_instance r)) =
     Inr (state_value (case r of None \<Rightarrow> initialState
                       | Some st \<Rightarrow> (case st ''state'' of None \<Rightarrow> initialState | Some v \<Rightarrow> v))) \<and>
   (raw w \<noteq> None \<longrightarrow>
      fst (getState (new_instance (raw (put_state w)))) = Inr (state_value (state w))) \<and>
   (raw w \<noteq> None \<and> toStr pf msg = Inr m \<longrightarrow>
      fst (getState (new_instance (raw (snd (addMessage pf clk msg w))))) =
        Inr (state_value (state (snd (addMessage pf clk msg w)))))"
  by (auto simp: getState_def get_state_def new_instance_def put_state_def addMessage_def log_def
      Let_def split: option.splits)

theorem getState_after_restart_witness:
  "fst (getState (new_instance (raw (snd (addMessage sample_platform sample_clock (JString ''hello'')
          (new_instance (Some Map.empty))))))) =
     Inr (state_value \<lparr>counter = 0, messages = [''hello at 2025-01-01T00:00:00.000Z''],
            lastUpdated = None\<rparr>) \<and>
   fst (getState (new_instance (Some Map.empty))) = Inr (state_value initialState)"
  using getState_after_restart [where r = "Some Map.empty" and w = "new_instance (Some Map.empty)"
      and pf = sample_platform and msg = "JString ''hello''" and m = "''hello''" and clk = sample_clock]
  by (simp add: new_instance_def addMessage_def log_def put_state_def Let_def slice_last_def
      initialState_def sample_platform_def sample_clock_def)

lemma slice_last_append: "slice_last n (slice_last n xs @ ys) = slice_last n (xs @ ys)"
  by (cases "length xs \<le> n") (auto simp: slice_last_def add.commute)

lemma addMessage_text:
  "state (snd (addMessage pf clk (JString s) w)) =
     (state w)\<lparr>messages := slice_last 10 (messages (state w) @ [entry pf (clk, s)])\<rparr>"
  by (simp add: addMessage_def log_def put_state_def Let_def entry_def)

lemma addMessages_log:
  "messages (state (addMessages pf cs w)) =
     (if cs = [] then messages (state w)
      else slice_last 10 (messages (state w) @ map (entry pf) cs))"
proof (induction cs arbitrary: w)
  case Nil
  show ?case by simp
next
  case (Cons c cs)
  obtain clk s where c: "c = (clk, s)" by (cases c)
  show ?case
    by (simp add: c Cons.IH addMessage_text slice_last_append)
qed

text \<open>
  C5: starting from an empty log, fifteen \<open>addMessage\<close> calls in sequence (with text
  arguments, as the method declares) leave the log holding exactly the entries of the
  last ten calls, oldest first.
\<close>

theorem addMessage_fifteen:
  "messages (state w) = [] \<Longrightarrow> length cs = 15 \<Longrightarrow>
   messages (state (addMessages pf cs w)) = drop 5 (map (entry pf) cs) \<and>
   length (messages (state (addMessages pf cs w))) = 10"
  by (auto simp: addMessages_log slice_last_def)

theorem addMessage_fifteen_witness:
  "messages (state (addMessages sample_platform fifteen_calls (new_instance None))) =
     [''m6 at 2025-01-01T00:00:00.000Z'', ''m7 at 2025-01-01T00:00:00.000Z'',
      ''m8 at 2025-01-01T00:00:00.000Z'', ''m9 at 2025-01-01T00:00:00.000Z'',
      ''m10 at 2025-01-01T00:00:00.000Z'', ''m11 at 2025-01-01T00:00:00.000Z'',
      ''m12 at 2025-01-01T00:00:00.000Z'', ''m13 at 2025-01-01T00:00:00.000Z'',
      ''m14 at 2025-01-01T00:00:00.000Z'', ''m15 at 2025-01-01T00:00:00.000Z'']"
  using addMessage_fifteen [where w = "new_instance None" and cs = fifteen_calls
      and pf = sample_platform]
  by (simp add: new_instance_def initialState_def fifteen_calls_def entry_def sample_platform_def
      sample_clock_def)

lemma get_put_state: "raw w \<noteq> None \<Longrightarrow> get_state (put_state w) = Some (state w)"
  by (auto simp: get_state_def put_state_def)

lemma state_put_state: "state (put_state w) = state w"
  by (simp add: put_state_def)

text \<open>
  C9, as stated: \<open>ping\<close> and \<open>addMessage\<close> persist the new state before they
  return. The store is reached with \<open>?.\<close>: on an instance without a storage handle
  the in-memory state is replaced and nothing is persisted.
\<close>

theorem persist_without_storage_counterexample:
  "messages (state (snd (addMessage sample_platform sample_clock (JString ''hello'') (new_instance None)))) =
     [''hello at 2025-01-01T00:00:00.000Z''] \<and>
   get_state (snd (addMessage sample_platform sample_clock (JString ''hello'') (new_instance None))) = None"
  by (simp add: addMessage_def log_def put_state_def get_state_def new_instance_def Let_def
      slice_last_def initialState_def sample_platform_def sample_clock_def)

text \<open>
  C9, amended: on an instance that has its storage handle, \<open>addMessage\<close> and
  \<open>ping\<close>, once the argument has been rendered as text (which cannot fail for the
  declared argument types), replace the in-memory state by the newly computed value and
  store that value under the key, so that afterwards the stored value equals the
  in-memory state; for \<open>ping\<close> also when it then throws for an unknown time zone.
\<close>

theorem mutators_persist:
  assumes "raw w \<noteq> None"
  shows "(toStr pf msg = Inr m \<longrightarrow>
            state (snd (addMessage pf clk msg w)) =
              (state w)\<lparr>messages := slice_last 10 (messages (state w) @
                 [m @ '' at '' @ toISOString pf (clk 0)])\<rparr> \<and>
            get_state (snd (addMessage pf clk msg w)) = Some (state (snd (addMessage pf clk msg w)))) \<and>
         (toStr pf (if truthy tz then tz else JString ''default'') = Inr z \<longrightarrow>
            state (snd (ping pf clk tz w)) =
              (state w)\<lparr>counter := counter (state w) + 1, lastUpdated := Some (clk 0),
                 messages := slice_last 10 (messages (state w) @
                   [''ping '' @ z @ '' at '' @ toISOString pf (clk 1)])\<rparr> \<and>
            get_state (snd (ping pf clk tz w)) = Some (state (snd (ping pf clk tz w))))"
proof (intro conjI impI)
  assume m: "toStr pf msg = Inr m"
  let ?w2 = "(log [JString ''Adding message:'', msg] w)\<lparr>state := (state w)
                \<lparr>messages := slice_last 10 (messages (state w) @ [m @ '' at '' @ toISOString pf (clk 0)])\<rparr>\<rparr>"
  have w': "snd (addMessage pf clk msg w) = put_state ?w2"
    using m by (simp add: addMessage_def Let_def log_def)
  have r: "raw ?w2 \<noteq> None" using assms by (simp add: log_def)
  show "state (snd (addMessage pf clk msg w)) =
      (state w)\<lparr>messages := slice_last 10 (messages (state w) @ [m @ '' at '' @ toISOString pf (clk 0)])\<rparr>"
    by (simp add: w' state_put_state)
  show "get_state (snd (addMessage pf clk msg w)) = Some (state (snd (addMessage pf clk msg w)))"
    unfolding w' state_put_state using r by (rule get_put_state)
next
  assume z: "toStr pf (if truthy tz then tz else JString ''default'') = Inr z"
  let ?note = "if truthy tz then ''for timezone: '' @ z else []"
  let ?w2 = "(log [JString ''Ping received, responding with pong'', JString ?note] w)\<lparr>state := (state w)
               \<lparr>counter := counter (state w) + 1, lastUpdated := Some (clk 0),
                messages := slice_last 10 (messages (state w) @
                  [''ping '' @ z @ '' at '' @ toISOString pf (clk 1)])\<rparr>\<rparr>"
  have w': "snd (ping pf clk tz w) = put_state ?w2"
    using z by (cases "truthy tz") (simp_all add: ping_def Let_def log_def split: sum.splits)
  have r: "raw ?w2 \<noteq> None" using assms by (simp add: log_def)
  show "state (snd (ping pf clk tz w)) =
      (state w)\<lparr>counter := counter (state w) + 1, lastUpdated := Some (clk 0),
         messages := slice_last 10 (messages (state w) @
           [''ping '' @ z @ '' at '' @ toISOString pf (clk 1)])\<rparr>"
    by (simp add: w' state_put_state)
  show "get_state (snd (ping pf clk tz w)) = Some (state (snd (ping pf clk tz w)))"
    unfolding w' state_put_state using r by (rule get_put_state)
qed

theorem mutators_persist_witness:
  "get_state (snd (addMessage sample_platform sample_clock (JString ''hello'')
       (new_instance (Some Map.empty)))) =
     Some \<lparr>counter = 0, messages = [''hello at 2025-01-01T00:00:00.000Z''], lastUpdated = None\<rparr> \<and>
   get_state (snd (ping sample_platform sample_clock JUndefined (new_instance (Some Map.empty)))) =
     Some \<lparr>counter = 1, messages = [''ping default at 2025-01-01T00:00:00.000Z''],
            lastUpdated = Some 0\<rparr>"
  using mutators_persist [where w = "new_instance (Some Map.empty)" and pf = sample_platform
      and msg = "JString ''hello''" and m = "''hello''" and clk = sample_clock and tz = JUndefined
      and z = "''default''"]
  by (simp add: new_instance_def initialState_def slice_last_def sample_platform_def sample_clock_def)

section \<open>Properties of the envelope and the client proxy\<close>

lemma jsonify_json_value:
  "(json_value v \<longrightarrow> jsonify pf v = v)"
  "(json_values xs \<longrightarrow> jsonify_elems pf xs = xs)"
  "(json_fields fs \<longrightarrow> jsonify_fields pf fs = fs)"
  by (induction v and xs and fs rule: json_value_json_values_json_fields.induct) auto

lemma json_value_defined: "json_value v \<Longrightarrow> v \<noteq> JUndefined"
  by auto

text \<open>
  C6: when a registered method returns a JSON-representable value \<open>v\<close> for an RPC
  request, the response the entry point builds for it, handed to the proxy's
  \<open>callMethod\<close>, makes \<open>callMethod\<close> return \<open>v\<close>.
\<close>

theorem envelope_roundtrip:
  assumes rpc: "suffix ''/rpc'' (pathname req)" "httpMethod req = ''POST''"
    and parsed: "jsonBody req = Inr b" "b \<noteq> JNull" "b \<noteq> JUndefined"
    and returned: "dispatchRpcCall pf ms inst (getField b ''method'')
        (if getField b ''params'' = JUndefined then JArray [] else getField b ''params'') w = (Inr v, w')"
    and representable: "json_value v"
  shows "callMethod pf (answering (fst (fetch pf ms inst req w))) actorName actorId methodName params = Inr v"
proof -
  from representable have v: "jsonify pf v = v" "v \<noteq> JUndefined"
    by (simp_all add: jsonify_json_value json_value_defined)
  from rpc parsed returned have
    "fst (fetch pf ms inst req w) = json_response pf 200 (JObject [(''result'', v)])"
    by (simp add: fetch_def)
  then show ?thesis
    using v by (simp add: callMethod_def answering_def json_response_def ok_def bodyJson_def)
qed

theorem envelope_roundtrip_witness:
  "callMethod sample_platform
     (answering (fst (fetch sample_platform agent_registry sample_agent
        (rpc_post (Inr (JObject [(''method'', JString ''ping''), (''params'', JArray [])])))
        (new_instance None))))
     ''AgentObject'' ''session-1'' ''ping'' (Some []) = Inr (JString ''pong'')"
  using envelope_roundtrip [where req = "rpc_post (Inr (JObject [(''method'', JString ''ping''), (''params'', JArray [])]))"
      and b = "JObject [(''method'', JString ''ping''), (''params'', JArray [])]"
      and pf = sample_platform and ms = agent_registry and inst = sample_agent
      and w = "new_instance None" and v = "JString ''pong''"
      and w' = "snd (ping sample_platform sample_clock JUndefined (new_instance None))"
      and actorName = "''AgentObject''" and actorId = "''session-1''" and methodName = "''ping''"
      and params = "Some []"]
  by (simp add: rpc_post_path rpc_post_method rpc_post_body dispatchRpcCall_def sample_agent_def
      agent_callable_target AgentObject_def agent_members_def ping_def arg_def Let_def)

text \<open>
  C7, as stated: a response body that carries an error field makes the call fail. The
  proxy tests \<open>if (result.error)\<close>: a failure envelope whose message is the empty
  text arrives with an error field, and the call returns \<open>undefined\<close>.
\<close>

theorem callMethod_falsy_error_counterexample:
  "getField (JObject [(''error'', JString [])]) ''error'' = JString [] \<and>
   callMethod sample_platform
     (answering \<lparr>status = 200, statusText = ''OK'', contentType = ''application/json'',
                  body = Json (JObject [(''error'', JString [])])\<rparr>)
     ''AgentObject'' ''session-1'' ''ping'' None = Inr JUndefined"
  by (simp add: callMethod_def answering_def ok_def bodyJson_def)

text \<open>
  C7, amended: for every call the transport answers: if the status is outside 200..299
  the call fails with the transport error carrying the status; otherwise, if the body
  deserialises to a value other than \<open>null\<close> whose error field is truthy (present,
  and not the empty text, zero, \<open>false\<close> or \<open>null\<close>), the call fails with the
  remote error carrying that field as text; otherwise, for such a body, the call returns
  the body's result field.
\<close>

theorem callMethod_outcome:
  assumes "transport
             \<lparr>url = ''/actors/'' @ actorName @ ''/'' @ actorId @ ''/rpc'', verb = ''POST'',
              requestContentType = ''application/json'',
              payload = jsonify pf (JObject [(''method'', JString methodName),
                (''params'', JArray (case params of None \<Rightarrow> [] | Some ps \<Rightarrow> ps))])\<rparr> = Inr resp"
  shows "(\<not> ok resp \<longrightarrow>
            callMethod pf transport actorName actorId methodName params =
              Inl (TransportError (status resp) (statusText resp))) \<and>
         (ok resp \<and> bodyJson pf resp = Inr b \<and> b \<noteq> JNull \<and> b \<noteq> JUndefined \<and>
          truthy (getField b ''error'') \<and> toStr pf (getField b ''error'') = Inr shown \<longrightarrow>
            callMethod pf transport actorName actorId methodName params = Inl (RemoteError shown)) \<and>
         (ok resp \<and> bodyJson pf resp = Inr b \<and> b \<noteq> JNull \<and> b \<noteq> JUndefined \<and>
          \<not> truthy (getField b ''error'') \<longrightarrow>
            callMethod pf transport actorName actorId methodName params = Inr (getField b ''result''))"
  using assms by (simp add: callMethod_def)

theorem callMethod_outcome_witness:
  "callMethod sample_platform
     (answering \<lparr>status = 500, statusText = ''Internal Server Error'',
                  contentType = ''application/json'',
                  body = Json (JObject [(''error'', JString ''boom'')])\<rparr>)
     ''AgentObject'' ''session-1'' ''ping'' None =
     Inl (TransportError 500 ''Internal Server Error'') \<and>
   callMethod sample_platform
     (answering \<lparr>status = 200, statusText = ''OK'', contentType = ''application/json'',
                  body = Json (JObject [(''error'', JString ''boom'')])\<rparr>)
     ''AgentObject'' ''session-1'' ''ping'' None = Inl (RemoteError ''boom'') \<and>
   callMethod sample_platform
     (answering \<lparr>status = 200, statusText = ''OK'', contentType = ''application/json'',
                  body = Json (JObject [(''result'', JString ''pong'')])\<rparr>)
     ''AgentObject'' ''session-1'' ''ping'' None = Inr (JString ''pong'')"
  using callMethod_outcome [where pf = sample_platform and actorName = "''AgentObject''"
      and actorId = "''session-1''" and methodName = "''ping''" and params = None
      and transport = "answering \<lparr>status = 500, statusText = ''Internal Server Error'',
                  contentType = ''application/json'',
                  body = Json (JObject [(''error'', JString ''boom'')])\<rparr>"
      and resp = "\<lparr>status = 500, statusText = ''Internal Server Error'',
                  contentType = ''application/json'',
                  body = Json (JObject [(''error'', JString ''boom'')])\<rparr>"
      and b = JNull and shown = "[]"]
    callMethod_outcome [where pf = sample_platform and actorName = "''AgentObject''"
      and actorId = "''session-1''" and methodName = "''ping''" and params = None
      and transport = "answering \<lparr>status = 200, statusText = ''OK'',
                  contentType = ''application/json'',
                  body = Json (JObject [(''error'', JString ''boom'')])\<rparr>"
      and resp = "\<lparr>status = 200, statusText = ''OK'',
                  contentType = ''application/json'',
                  body = Json (JObject [(''error'', JString ''boom'')])\<rparr>"
      and b = "JObject [(''error'', JString ''boom'')]" and shown = "''boom''"]
    callMethod_outcome [where pf = sample_platform and actorName = "''AgentObject''"
      and actorId = "''session-1''" and methodName = "''ping''" and params = None
      and transport = "answering \<lparr>status = 200, statusText = ''OK'',
                  contentType = ''application/json'',
                  body = Json (JObject [(''result'', JString ''pong'')])\<rparr>"
      and resp = "\<lparr>status = 200, statusText = ''OK'',
                  contentType = ''application/json'',
                  body = Json (JObject [(''result'', JString ''pong'')])\<rparr>"
      and b = "JObject [(''result'', JString ''pong'')]" and shown = "[]"]
  by (simp add: answering_def ok_def bodyJson_def)

lemma agent_dispatch_result:
  assumes "dispatchRpcCall pf agent_registry (AgentObject pf' clk oid) method params w = (Inr v, w')"
  shows "(\<exists>s. v = JString s) \<or> (\<exists>s. v = state_value s)"
proof -
  from assms have callable: "isCallableMethod agent_registry (self (AgentObject pf' clk oid)) method"
    by (auto simp: dispatchRpcCall_def split: if_splits sum.splits)
  then consider "method = JString ''ping''" | "method = JString ''getState''"
    | "method = JString ''addMessage''"
    by (auto simp: agent_callable)
  then show ?thesis
  proof cases
    case 1
    with assms show ?thesis
      by (auto simp: dispatchRpcCall_def agent_callable AgentObject_def agent_members_def ping_def
          Let_def split: sum.splits if_splits)
  next
    case 2
    with assms show ?thesis
      by (auto simp: dispatchRpcCall_def agent_callable AgentObject_def agent_members_def
          getState_def split: sum.splits if_splits)
  next
    case 3
    with assms show ?thesis
      by (auto simp: dispatchRpcCall_def agent_callable AgentObject_def agent_members_def
          addMessage_def Let_def split: sum.splits if_splits)
  qed
qed

lemma jsonify_result_defined:
  "(\<exists>s. v = JString s) \<or> (\<exists>s. v = state_value s) \<Longrightarrow> jsonify pf v \<noteq> JUndefined \<and> v \<noteq> JUndefined"
  by (auto simp: state_value_def)

text \<open>
  C8: every response of the agent's entry point to an RPC request is either the
  success answer, whose body is the object with the one field \<open>result\<close> (never
  \<open>undefined\<close>: each of the three registered methods returns a text or the state
  object), or the failure answer, whose body is the object with the one field
  \<open>error\<close> holding the message.
\<close>

theorem agent_envelope:
  assumes "suffix ''/rpc'' (pathname req)" and "httpMethod req = ''POST''"
  shows "(\<exists>v. v \<noteq> JUndefined \<and>
            fst (fetch pf agent_registry (AgentObject pf clk oid) req w) =
              \<lparr>status = 200, statusText = [], contentType = ''application/json'',
               body = Json (JObject [(''result'', v)])\<rparr>) \<or>
         (\<exists>msg.
            fst (fetch pf agent_registry (AgentObject pf clk oid) req w) =
              \<lparr>status = 500, statusText = [], contentType = ''application/json'',
               body = Json (JObject [(''error'', JString msg)])\<rparr>)"
proof -
  let ?inst = "AgentObject pf clk oid"
  define outcome where "outcome =
    (case jsonBody req of
       Inl msg \<Rightarrow> (Inl (SyntaxError msg), w)
     | Inr b \<Rightarrow>
         if b = JNull \<or> b = JUndefined then (Inl (TypeError NullDestructure), w)
         else dispatchRpcCall pf agent_registry ?inst (getField b ''method'')
                (if getField b ''params'' = JUndefined then JArray []
                 else getField b ''params'') w)"
  have fetch: "fetch pf agent_registry ?inst req w =
     (case outcome of
        (Inr result, w') \<Rightarrow> (json_response pf 200 (JObject [(''result'', result)]), w')
      | (Inl error, w') \<Rightarrow>
          (json_response pf 500 (JObject [(''error'', JString (message pf error))]), w'))"
    using assms by (simp add: fetch_def outcome_def)
  obtain r w' where o: "outcome = (r, w')" by (cases outcome)
  show ?thesis
  proof (cases r)
    case (Inl e)
    with o fetch show ?thesis by (simp add: json_response_def)
  next
    case (Inr v)
    with o have "\<exists>b. dispatchRpcCall pf agent_registry ?inst (getField b ''method'')
                (if getField b ''params'' = JUndefined then JArray []
                 else getField b ''params'') w = (Inr v, w')"
      by (auto simp: outcome_def split: sum.splits if_splits)
    then have "(\<exists>s. v = JString s) \<or> (\<exists>s. v = state_value s)"
      by (blast dest: agent_dispatch_result)
    then have "jsonify pf v \<noteq> JUndefined \<and> v \<noteq> JUndefined" by (rule jsonify_result_defined)
    with o Inr fetch show ?thesis by (simp add: json_response_def)
  qed
qed

theorem agent_envelope_witness:
  "suffix ''/rpc'' (pathname (rpc_post (Inr (JObject [(''method'', JString ''dangerousMethod'')])))) \<and>
   httpMethod (rpc_post (Inr (JObject [(''method'', JString ''dangerousMethod'')]))) = ''POST'' \<and>
   ((\<exists>v. v \<noteq> JUndefined \<and>
       fst (fetch sample_platform agent_registry sample_agent
              (rpc_post (Inr (JObject [(''method'', JString ''dangerousMethod'')])))
              (new_instance None)) =
         \<lparr>status = 200, statusText = [], contentType = ''application/json'',
          body = Json (JObject [(''result'', v)])\<rparr>) \<or>
    (\<exists>msg.
       fst (fetch sample_platform agent_registry sample_agent
              (rpc_post (Inr (JObject [(''method'', JString ''dangerousMethod'')])))
              (new_instance None)) =
         \<lparr>status = 500, statusText = [], contentType = ''application/json'',
          body = Json (JObject [(''error'', JString msg)])\<rparr>))"
  using agent_envelope [where req = "rpc_post (Inr (JObject [(''method'', JString ''dangerousMethod'')]))"
      and pf = sample_platform and clk = sample_clock and oid = 7 and w = "new_instance None"]
  by (simp add: rpc_post_path rpc_post_method sample_agent_def)

end
